theory Spec2Isabelle
  imports Main "HOL-Library.Word"
begin

section \<open>JavaScript strings\<close>

text \<open>
  A JavaScript string is a sequence of 16-bit code units. Source literals are written
  with \<open>js\<close>, which reads an ASCII literal as code units.
\<close>

type_synonym jsstring = "16 word list"

definition js :: "string \<Rightarrow> jsstring" where
  "js s = map (\<lambda>c. of_nat (of_char c)) s"

text \<open>
  The code units that \<open>String.prototype.trim\<close> strips: the WhiteSpace and
  LineTerminator productions of ECMAScript (TAB, LF, VT, FF, CR, SP, NBSP, U+1680,
  U+2000 to U+200A, LS, PS, U+202F, U+205F, U+3000, U+FEFF).
\<close>

definition is_ws :: "16 word \<Rightarrow> bool" where
  "is_ws u = (u = 0x09 \<or> u = 0x0A \<or> u = 0x0B \<or> u = 0x0C \<or> u = 0x0D \<or> u = 0x20
     \<or> u = 0xA0 \<or> u = 0x1680 \<or> (0x2000 \<le> u \<and> u \<le> 0x200A) \<or> u = 0x2028 \<or> u = 0x2029
     \<or> u = 0x202F \<or> u = 0x205F \<or> u = 0x3000 \<or> u = 0xFEFF)"

definition trim :: "jsstring \<Rightarrow> jsstring" where
  "trim s = rev (dropWhile is_ws (rev (dropWhile is_ws s)))"

text \<open>
  \<open>String.prototype.toLowerCase\<close> on the Basic Latin block: \<open>A\<close> to \<open>Z\<close> become
  \<open>a\<close> to \<open>z\<close>. The case tables of the other Unicode blocks are not modelled: code
  units outside \<open>A\<close> to \<open>Z\<close> are left as they are (no Unicode case mapping produces
  or consumes U+0060, the only code unit the component compares against).
\<close>

definition lower_unit :: "16 word \<Rightarrow> 16 word" where
  "lower_unit u = (if 0x41 \<le> u \<and> u \<le> 0x5A then u + 0x20 else u)"

definition toLowerCase :: "jsstring \<Rightarrow> jsstring" where
  "toLowerCase s = map lower_unit s"

text \<open>\<open>s.split(sep)\<close> for a one-unit separator: \<open>"".split("\n")\<close> is \<open>[""]\<close>.\<close>

fun split :: "16 word \<Rightarrow> jsstring \<Rightarrow> jsstring list" where
  "split sep [] = [[]]"
| "split sep (u # us) =
     (if u = sep then [] # split sep us
      else (case split sep us of
              [] \<Rightarrow> [[u]]
            | piece # pieces \<Rightarrow> (u # piece) # pieces))"

text \<open>\<open>xs.join(sep)\<close>.\<close>

fun join :: "jsstring \<Rightarrow> jsstring list \<Rightarrow> jsstring" where
  "join sep [] = []"
| "join sep [x] = x"
| "join sep (x # y # ys) = x @ sep @ join sep (y # ys)"

text \<open>\<open>xs.indexOf(x)\<close>: the first index holding \<open>x\<close>, or \<open>-1\<close>.\<close>

fun indexOf :: "'a list \<Rightarrow> 'a \<Rightarrow> int" where
  "indexOf [] x = -1"
| "indexOf (y # ys) x =
     (if y = x then 0
      else (let i = indexOf ys x in if i = -1 then -1 else i + 1))"

text \<open>\<open>xs.splice(i, 1)\<close> for an index \<open>i\<close> that \<open>indexOf\<close> returned.\<close>

definition splice1 :: "int \<Rightarrow> 'a list \<Rightarrow> 'a list" where
  "splice1 i xs = take (nat i) xs @ drop (nat i + 1) xs"


section \<open>Shell history (\<open>shell-history.ts\<close>)\<close>

definition MAX_HISTORY :: nat where
  "MAX_HISTORY = 1000"

text \<open>
  The history file as \<open>fs\<close> shows it: missing, present but failing to read, or present
  with its decoded text. \<open>writable\<close> says whether \<open>writeFileSync\<close> succeeds; both
  file operations sit in \<open>try\<close>/\<open>catch\<close> blocks that swallow the failure.
\<close>

datatype file_status = NoFile | ReadFails | FileText jsstring

record shell_state =
  historyCache :: "jsstring list option"
  HISTORY_FILE :: file_status
  writable :: bool

definition loadHistory :: "shell_state \<Rightarrow> jsstring list \<times> shell_state" where
  "loadHistory s =
     (case historyCache s of
        Some h \<Rightarrow> (h, s)
      | None \<Rightarrow>
          (case HISTORY_FILE s of
             FileText content \<Rightarrow>
               (let h = filter (\<lambda>l. l \<noteq> []) (split 0x0A content)
                in (h, s\<lparr>historyCache := Some h\<rparr>))
           | _ \<Rightarrow> ([], s\<lparr>historyCache := Some []\<rparr>)))"

definition addToHistory :: "jsstring \<Rightarrow> shell_state \<Rightarrow> shell_state" where
  "addToHistory command s =
     (let trimmed = trim command in
      if trimmed = [] then s
      else
        (let (history, s1) = loadHistory s;
             existingIndex = indexOf history trimmed;
             history1 = (if existingIndex \<noteq> -1 then splice1 existingIndex history else history);
             history2 = trimmed # history1;
             history3 = (if length history2 > MAX_HISTORY then take MAX_HISTORY history2
                         else history2)
         in s1\<lparr>historyCache := Some history3,
               HISTORY_FILE := (if writable s1 then FileText (join [0x0A] history3)
                                else HISTORY_FILE s1)\<rparr>))"

text \<open>The history the next call of \<open>loadHistory\<close> returns.\<close>

definition history_of :: "shell_state \<Rightarrow> jsstring list" where
  "history_of s = fst (loadHistory s)"

text \<open>A new process starts with an empty cache and the file the last one left.\<close>

definition restart :: "shell_state \<Rightarrow> shell_state" where
  "restart s = s\<lparr>historyCache := None\<rparr>"

definition fresh_shell :: shell_state where
  "fresh_shell = \<lparr>historyCache = None, HISTORY_FILE = NoFile, writable = True\<rparr>"


section \<open>The terminal component (\<open>Terminal\<close>)\<close>

subsection \<open>Data\<close>

text \<open>
  \<open>LocalPTY\<close> is declared in \<open>@/context/session\<close>; the component reads and writes the
  fields below. The optional fields are \<open>None\<close> when undefined; numbers are integers.
\<close>

record LocalPTY =
  pty_id :: jsstring
  buffer :: "jsstring option"
  rows :: "int option"
  cols :: "int option"
  scrollY :: "int option"

text \<open>Which of the optional callbacks the host passed in \<open>props\<close>.\<close>

record props =
  has_onSubmit :: bool
  has_onCleanup :: bool
  has_onConnectError :: bool

datatype ready_state = CONNECTING | OPEN | CLOSING | CLOSED

record websocket =
  readyState :: ready_state

text \<open>
  The terminal surface is a library object. The model keeps what the component reads
  back from it: \<open>term.cols\<close>, \<open>term.rows\<close>, \<open>term.getViewportY()\<close>, the text
  \<open>serializeAddon.serialize()\<close> returns, and whether \<open>dispose\<close> was called.
\<close>

record surface =
  term_cols :: int
  term_rows :: int
  viewportY :: int
  serialized :: jsstring
  disposed :: bool

record key_event =
  ctrlKey :: bool
  key :: jsstring

datatype addon = SerializeAddon | FitAddon

datatype listener =
    KeyHook | WindowResize | TermOnResize | TermOnData | TermOnKey
  | WsOnOpen | WsOnMessage | WsOnError | WsOnClose

text \<open>
  Every call the component makes on something outside itself, in the order made.
  \<open>NewWebSocket\<close> carries the session id that goes into the URL (the SDK's base URL and
  directory are the same for every call); \<open>PtyUpdate\<close> is \<open>sdk.client.pty.update\<close>, the
  size report that goes through the SDK and not through the socket.
\<close>

datatype effect =
    NewWebSocket jsstring
  | NewTerm
  | AttachCustomKeyEventHandler
  | NewAddon addon
  | LoadAddon addon
  | TermOpen
  | TermResize int int
  | TermReset
  | TermWrite jsstring
  | TermScrollToLine int
  | ContainerFocus
  | FitFit
  | FitObserveResize
  | AddListener listener
  | PtyUpdate jsstring int int
  | WsSend jsstring
  | OnSubmit
  | OnConnectError
  | OnCleanup LocalPTY
  | ConsoleLog string
  | ConsoleError
  | Serialize
  | WsCloseCall
  | TermDispose
  | PreventDefault
  | UncaughtTypeError

datatype error = Thrown effect | TypeError

text \<open>
  The component's variables (\<open>ws\<close>, \<open>term\<close> written \<open>term'\<close>, \<open>serializeAddon\<close>, \<open>fitAddon\<close>;
  \<open>None\<close> and \<open>False\<close> are \<open>undefined\<close>), the listeners registered so far, and the
  trace of calls made.
\<close>

record view =
  ws :: "websocket option"
  term' :: "surface option"
  serializeAddon :: bool
  fitAddon :: bool
  listeners :: "listener list"
  trace :: "effect list"

definition unmounted :: view where
  "unmounted = \<lparr>ws = None, term' = None, serializeAddon = False, fitAddon = False,
                 listeners = [], trace = []\<rparr>"

text \<open>
  What the libraries do that the component cannot see in advance: which calls throw,
  and the readings of a newly constructed surface.
\<close>

record library =
  throws :: "effect \<Rightarrow> bool"
  new_Term :: surface

definition emit :: "effect list \<Rightarrow> view \<Rightarrow> view" where
  "emit es v = v\<lparr>trace := trace v @ es\<rparr>"

subsection \<open>The key hook\<close>

text \<open>The callback given to \<open>attachCustomKeyEventHandler\<close>: its result and its calls.\<close>

definition customKeyEventHandler :: "key_event \<Rightarrow> bool \<times> effect list" where
  "customKeyEventHandler event =
     (if ctrlKey event \<and> toLowerCase (key event) = js ''`'' then (True, [PreventDefault])
      else (False, []))"

subsection \<open>Mount\<close>

text \<open>
  The body of \<open>onMount\<close> is a straight line of calls with no \<open>await\<close>: each entry is
  one call and the update of the variables that follows when the call returns. When a
  call throws, the body stops there and the promise of the \<open>async\<close> body is rejected
  (\<open>Inl\<close>); the variables stay as they were.
\<close>

type_synonym call = "effect \<times> (view \<Rightarrow> view)"

type_synonym step = "view \<Rightarrow> (error \<times> view) + view"

fun run_calls :: "library \<Rightarrow> call list \<Rightarrow> step" where
  "run_calls L [] v = Inr v"
| "run_calls L ((e, upd) # cs) v =
     (if throws L e then Inl (Thrown e, emit [e] v) else run_calls L cs (upd (emit [e] v)))"

definition add_listener :: "listener \<Rightarrow> view \<Rightarrow> view" where
  "add_listener l v = v\<lparr>listeners := listeners v @ [l]\<rparr>"

definition resized :: "int \<Rightarrow> int \<Rightarrow> view \<Rightarrow> view" where
  "resized c r v = v\<lparr>term' := map_option (\<lambda>t. t\<lparr>term_cols := c, term_rows := r\<rparr>) (term' v)\<rparr>"

text \<open>Lines 26 to 52: the socket, the surface, the key hook, the addons, \<open>open\<close>.\<close>

definition create_calls :: "library \<Rightarrow> LocalPTY \<Rightarrow> call list" where
  "create_calls L pty =
     [(NewWebSocket (pty_id pty), \<lambda>v. v\<lparr>ws := Some \<lparr>readyState = CONNECTING\<rparr>\<rparr>),
      (NewTerm, \<lambda>v. v\<lparr>term' := Some (new_Term L)\<rparr>),
      (AttachCustomKeyEventHandler, add_listener KeyHook),
      (NewAddon FitAddon, \<lambda>v. v\<lparr>fitAddon := True\<rparr>),
      (NewAddon SerializeAddon, \<lambda>v. v\<lparr>serializeAddon := True\<rparr>),
      (LoadAddon SerializeAddon, id),
      (LoadAddon FitAddon, id),
      (TermOpen, id)]"

text \<open>
  Lines 54 to 63: the restore block. A JavaScript condition on a string holds when the
  string is defined and not empty, on a number when it is defined and not zero.
\<close>

definition restore_calls :: "LocalPTY \<Rightarrow> call list" where
  "restore_calls pty =
     (case buffer pty of
        None \<Rightarrow> []
      | Some b \<Rightarrow>
          if b = [] then []
          else
            (case (rows pty, cols pty) of
               (Some r, Some c) \<Rightarrow>
                 if r \<noteq> 0 \<and> c \<noteq> 0 then [(TermResize c r, resized c r)] else []
             | _ \<Rightarrow> [])
            @ [(TermReset, id), (TermWrite b, id)]
            @ (case scrollY pty of
                 None \<Rightarrow> []
               | Some y \<Rightarrow> if y \<noteq> 0 then [(TermScrollToLine y, id)] else []))"

text \<open>Lines 65 to 117: focus, fit, and the registration of every handler.\<close>

definition wire_calls :: "call list" where
  "wire_calls =
     [(ContainerFocus, id),
      (FitFit, id),
      (FitObserveResize, id),
      (AddListener WindowResize, add_listener WindowResize),
      (AddListener TermOnResize, add_listener TermOnResize),
      (AddListener TermOnData, add_listener TermOnData),
      (AddListener TermOnKey, add_listener TermOnKey),
      (AddListener WsOnOpen, add_listener WsOnOpen),
      (AddListener WsOnMessage, add_listener WsOnMessage),
      (AddListener WsOnError, add_listener WsOnError),
      (AddListener WsOnClose, add_listener WsOnClose)]"

definition onMount :: "library \<Rightarrow> LocalPTY \<Rightarrow> step" where
  "onMount L pty = run_calls L (create_calls L pty @ restore_calls pty @ wire_calls)"

text \<open>The variables after a body ran, whether it finished or stopped at a throw.\<close>

definition after :: "(error \<times> view) + view \<Rightarrow> view" where
  "after r = (case r of Inl (e, v) \<Rightarrow> v | Inr v \<Rightarrow> v)"

subsection \<open>Handlers\<close>

text \<open>The guard \<open>ws && ws.readyState === WebSocket.OPEN\<close>.\<close>

definition is_open :: "view \<Rightarrow> bool" where
  "is_open v = (case ws v of None \<Rightarrow> False | Some w \<Rightarrow> readyState w = OPEN)"

definition onResize_handler :: "LocalPTY \<Rightarrow> view \<Rightarrow> int \<Rightarrow> int \<Rightarrow> effect list" where
  "onResize_handler pty v c r = (if is_open v then [PtyUpdate (pty_id pty) c r] else [])"

definition onData_handler :: "view \<Rightarrow> jsstring \<Rightarrow> effect list" where
  "onData_handler v d = (if is_open v then [WsSend d] else [])"

definition onKey_handler :: "props \<Rightarrow> jsstring \<Rightarrow> effect list" where
  "onKey_handler p k = (if k = js ''Enter'' \<and> has_onSubmit p then [OnSubmit] else [])"

text \<open>
  The socket listeners. Reading \<open>term.cols\<close> or calling \<open>term.write\<close> with \<open>term\<close>
  undefined is a TypeError that nothing catches.
\<close>

definition open_handler :: "LocalPTY \<Rightarrow> view \<Rightarrow> effect list" where
  "open_handler pty v =
     ConsoleLog ''WebSocket connected'' #
     (case term' v of
        None \<Rightarrow> [UncaughtTypeError]
      | Some t \<Rightarrow> [PtyUpdate (pty_id pty) (term_cols t) (term_rows t)])"

definition message_handler :: "view \<Rightarrow> jsstring \<Rightarrow> effect list" where
  "message_handler v d =
     (case term' v of None \<Rightarrow> [UncaughtTypeError] | Some t \<Rightarrow> [TermWrite d])"

definition error_handler :: "props \<Rightarrow> effect list" where
  "error_handler p = ConsoleError # (if has_onConnectError p then [OnConnectError] else [])"

definition close_handler :: "effect list" where
  "close_handler = [ConsoleLog ''WebSocket disconnected'']"

subsection \<open>Events\<close>

text \<open>
  What the surface, the window and the socket deliver to the component.
  \<open>EvSurface\<close> is the surface changing its own readings (output written, the user
  scrolling, a fit). The browser sets \<open>readyState\<close> before it dispatches \<open>open\<close> and
  \<open>close\<close>. An event reaches a handler only when the handler was registered.
\<close>

datatype event =
    EvData jsstring
  | EvResize int int
  | EvKey jsstring
  | EvWindowResize
  | EvWsOpen
  | EvWsMessage jsstring
  | EvWsError
  | EvWsClose
  | EvSurface int int int jsstring

definition set_ready :: "ready_state \<Rightarrow> view \<Rightarrow> view" where
  "set_ready r v = v\<lparr>ws := map_option (\<lambda>w. w\<lparr>readyState := r\<rparr>) (ws v)\<rparr>"

definition deliver :: "listener \<Rightarrow> effect list \<Rightarrow> view \<Rightarrow> view" where
  "deliver l es v = (if l \<in> set (listeners v) then emit es v else v)"

fun fire :: "props \<Rightarrow> LocalPTY \<Rightarrow> event \<Rightarrow> view \<Rightarrow> view" where
  "fire p pty (EvData d) v = deliver TermOnData (onData_handler v d) v"
| "fire p pty (EvResize c r) v =
     (let v1 = resized c r v in deliver TermOnResize (onResize_handler pty v1 c r) v1)"
| "fire p pty (EvKey k) v = deliver TermOnKey (onKey_handler p k) v"
| "fire p pty EvWindowResize v = deliver WindowResize [FitFit] v"
| "fire p pty EvWsOpen v =
     (let v1 = set_ready OPEN v in deliver WsOnOpen (open_handler pty v1) v1)"
| "fire p pty (EvWsMessage d) v = deliver WsOnMessage (message_handler v d) v"
| "fire p pty EvWsError v = deliver WsOnError (error_handler p) v"
| "fire p pty EvWsClose v =
     (let v1 = set_ready CLOSED v in deliver WsOnClose close_handler v1)"
| "fire p pty (EvSurface c r y s) v =
     v\<lparr>term' := map_option
        (\<lambda>t. t\<lparr>term_cols := c, term_rows := r, viewportY := y, serialized := s\<rparr>) (term' v)\<rparr>"

fun run :: "props \<Rightarrow> LocalPTY \<Rightarrow> event list \<Rightarrow> view \<Rightarrow> view" where
  "run p pty [] v = v"
| "run p pty (ev # evs) v = run p pty evs (fire p pty ev v)"

text \<open>The calls an event adds to the trace.\<close>

definition reaction :: "props \<Rightarrow> LocalPTY \<Rightarrow> event \<Rightarrow> view \<Rightarrow> effect list" where
  "reaction p pty ev v = drop (length (trace v)) (trace (fire p pty ev v))"

subsection \<open>Teardown\<close>

text \<open>
  \<open>ws?.close()\<close> and \<open>term?.dispose()\<close>. \<open>close\<close> moves a connecting or open socket
  to \<open>CLOSING\<close> and leaves a closing or closed one alone.
\<close>

definition close_ws :: "view \<Rightarrow> view" where
  "close_ws v =
     (case ws v of
        None \<Rightarrow> v
      | Some w \<Rightarrow>
          emit [WsCloseCall]
            (v\<lparr>ws := Some (w\<lparr>readyState :=
                 (if readyState w = CONNECTING \<or> readyState w = OPEN then CLOSING
                  else readyState w)\<rparr>)\<rparr>))"

definition dispose :: "view \<Rightarrow> view" where
  "dispose v =
     (case term' v of
        None \<Rightarrow> v
      | Some t \<Rightarrow> emit [TermDispose] (v\<lparr>term' := Some (t\<lparr>disposed := True\<rparr>)\<rparr>))"

text \<open>
  The capture of lines 121 to 130: \<open>serialize()\<close>, then the object literal reading
  \<open>term.rows\<close>, \<open>term.cols\<close> and \<open>term.getViewportY()\<close>, then the host's callback.
  With \<open>term\<close> undefined the read of \<open>term.rows\<close> throws. The library calls of the
  teardown themselves (\<open>serialize\<close>, the callback, \<open>close\<close>, \<open>dispose\<close>) are taken
  to return.
\<close>

definition capture :: "props \<Rightarrow> LocalPTY \<Rightarrow> step" where
  "capture p pty v =
     (if serializeAddon v \<and> has_onCleanup p then
        (case term' v of
           None \<Rightarrow> Inl (TypeError, emit [Serialize] v)
         | Some t \<Rightarrow>
             Inr (emit [Serialize,
                        OnCleanup (pty\<lparr>buffer := Some (serialized t),
                                       rows := Some (term_rows t),
                                       cols := Some (term_cols t),
                                       scrollY := Some (viewportY t)\<rparr>)] v))
      else Inr v)"

definition onCleanup :: "props \<Rightarrow> LocalPTY \<Rightarrow> step" where
  "onCleanup p pty v =
     (case capture p pty v of
        Inl x \<Rightarrow> Inl x
      | Inr v1 \<Rightarrow> Inr (dispose (close_ws v1)))"

text \<open>
  The same body against a library whose calls may throw, as the calls of the mount may.
  Nothing in the body catches a throw: one in \<open>serialize\<close> or in the host's callback
  leaves the body before \<open>ws?.close()\<close> and \<open>term?.dispose()\<close>, one in \<open>close\<close>
  leaves it before \<open>dispose\<close>.
\<close>

definition capture_lib :: "library \<Rightarrow> props \<Rightarrow> LocalPTY \<Rightarrow> step" where
  "capture_lib L p pty v =
     (if serializeAddon v \<and> has_onCleanup p then
        (if throws L Serialize then Inl (Thrown Serialize, emit [Serialize] v)
         else
           (case term' v of
              None \<Rightarrow> Inl (TypeError, emit [Serialize] v)
            | Some t \<Rightarrow>
                (let handed = OnCleanup (pty\<lparr>buffer := Some (serialized t),
                                               rows := Some (term_rows t),
                                               cols := Some (term_cols t),
                                               scrollY := Some (viewportY t)\<rparr>)
                 in if throws L handed then Inl (Thrown handed, emit [Serialize, handed] v)
                    else Inr (emit [Serialize, handed] v))))
      else Inr v)"

definition close_lib :: "library \<Rightarrow> step" where
  "close_lib L v =
     (case ws v of
        None \<Rightarrow> Inr v
      | Some w \<Rightarrow>
          if throws L WsCloseCall then Inl (Thrown WsCloseCall, emit [WsCloseCall] v)
          else Inr (close_ws v))"

definition dispose_lib :: "library \<Rightarrow> step" where
  "dispose_lib L v =
     (case term' v of
        None \<Rightarrow> Inr v
      | Some t \<Rightarrow>
          if throws L TermDispose then Inl (Thrown TermDispose, emit [TermDispose] v)
          else Inr (dispose v))"

definition onCleanup_lib :: "library \<Rightarrow> props \<Rightarrow> LocalPTY \<Rightarrow> step" where
  "onCleanup_lib L p pty v =
     (case capture_lib L p pty v of
        Inl x \<Rightarrow> Inl x
      | Inr v1 \<Rightarrow>
          (case close_lib L v1 of
             Inl x \<Rightarrow> Inl x
           | Inr v2 \<Rightarrow> dispose_lib L v2))"

subsection \<open>Reading traces\<close>

text \<open>The four surface calls of the restore block, and their place in its fixed order.\<close>

fun is_restore_op :: "effect \<Rightarrow> bool" where
  "is_restore_op (TermResize c r) = True"
| "is_restore_op TermReset = True"
| "is_restore_op (TermWrite d) = True"
| "is_restore_op (TermScrollToLine y) = True"
| "is_restore_op e = False"

fun restore_rank :: "effect \<Rightarrow> nat" where
  "restore_rank (TermResize c r) = 0"
| "restore_rank TermReset = 1"
| "restore_rank (TermWrite d) = 2"
| "restore_rank (TermScrollToLine y) = 3"
| "restore_rank e = 4"

fun is_resize :: "effect \<Rightarrow> bool" where
  "is_resize (TermResize c r) = True"
| "is_resize e = False"

subsection \<open>Example inputs\<close>

definition quiet :: library where
  "quiet = \<lparr>throws = (\<lambda>e. False),
            new_Term = \<lparr>term_cols = 80, term_rows = 24, viewportY = 0, serialized = [],
                        disposed = False\<rparr>\<rparr>"

text \<open>A surface whose \<open>write\<close> rejects the text \<open>bad\<close>.\<close>

definition faulty :: library where
  "faulty = \<lparr>throws = (\<lambda>e. e = TermWrite (js ''bad'')),
             new_Term = \<lparr>term_cols = 80, term_rows = 24, viewportY = 0, serialized = [],
                         disposed = False\<rparr>\<rparr>"

text \<open>A library whose surface constructor throws.\<close>

definition no_surface :: library where
  "no_surface = \<lparr>throws = (\<lambda>e. e = NewTerm),
                 new_Term = \<lparr>term_cols = 80, term_rows = 24, viewportY = 0, serialized = [],
                             disposed = False\<rparr>\<rparr>"

text \<open>A library in which loading the serializer into the surface throws.\<close>

definition unloadable :: library where
  "unloadable = \<lparr>throws = (\<lambda>e. e = LoadAddon SerializeAddon),
                 new_Term = \<lparr>term_cols = 80, term_rows = 24, viewportY = 0, serialized = [],
                             disposed = False\<rparr>\<rparr>"

text \<open>A library whose \<open>serialize\<close> throws.\<close>

definition unserializable :: library where
  "unserializable = \<lparr>throws = (\<lambda>e. e = Serialize),
                     new_Term = \<lparr>term_cols = 80, term_rows = 24, viewportY = 0,
                                 serialized = [], disposed = False\<rparr>\<rparr>"

definition host :: props where
  "host = \<lparr>has_onSubmit = True, has_onCleanup = True, has_onConnectError = True\<rparr>"

definition sess_full :: LocalPTY where
  "sess_full = \<lparr>pty_id = js ''pty1'', buffer = Some (js ''hello''), rows = Some 30,
                cols = Some 100, scrollY = Some 5\<rparr>"

definition sess_snapshot_only :: LocalPTY where
  "sess_snapshot_only = \<lparr>pty_id = js ''pty1'', buffer = Some (js ''x''), rows = None,
                         cols = None, scrollY = None\<rparr>"

definition sess_dims_only :: LocalPTY where
  "sess_dims_only = \<lparr>pty_id = js ''pty1'', buffer = None, rows = Some 24,
                     cols = Some 80, scrollY = None\<rparr>"

definition sess_bad :: LocalPTY where
  "sess_bad = \<lparr>pty_id = js ''pty1'', buffer = Some (js ''bad''), rows = Some 24,
               cols = Some 80, scrollY = None\<rparr>"

definition attached_view :: view where
  "attached_view = after (onMount quiet sess_full unmounted)"

text \<open>The attached view once the surface holds output and the user scrolled.\<close>

definition busy_view :: view where
  "busy_view = fire host sess_full (EvSurface 120 40 7 (js ''$ ls'')) attached_view"


section \<open>Facts about the model\<close>

lemmas example_defs = quiet_def faulty_def host_def sess_full_def sess_snapshot_only_def
  sess_dims_only_def sess_bad_def

lemmas mount_defs = onMount_def create_calls_def restore_calls_def wire_calls_def
  unmounted_def emit_def add_listener_def resized_def after_def

lemma attached_view_eq:
  "attached_view =
     \<lparr>ws = Some \<lparr>readyState = CONNECTING\<rparr>,
      term' = Some \<lparr>term_cols = 100, term_rows = 30, viewportY = 0, serialized = [],
                    disposed = False\<rparr>,
      serializeAddon = True, fitAddon = True,
      listeners = [KeyHook, WindowResize, TermOnResize, TermOnData, TermOnKey, WsOnOpen,
                   WsOnMessage, WsOnError, WsOnClose],
      trace = [NewWebSocket (js ''pty1''), NewTerm, AttachCustomKeyEventHandler,
               NewAddon FitAddon, NewAddon SerializeAddon, LoadAddon SerializeAddon,
               LoadAddon FitAddon, TermOpen, TermResize 100 30, TermReset,
               TermWrite (js ''hello''), TermScrollToLine 5, ContainerFocus, FitFit,
               FitObserveResize, AddListener WindowResize, AddListener TermOnResize,
               AddListener TermOnData, AddListener TermOnKey, AddListener WsOnOpen,
               AddListener WsOnMessage, AddListener WsOnError, AddListener WsOnClose]\<rparr>"
  by (simp add: attached_view_def example_defs mount_defs js_def)

lemma busy_view_eq:
  "busy_view = attached_view
     \<lparr>term' := Some \<lparr>term_cols = 120, term_rows = 40, viewportY = 7,
                      serialized = js ''$ ls'', disposed = False\<rparr>\<rparr>"
  by (simp add: busy_view_def attached_view_eq)

lemma run_calls_Inr_trace:
  assumes "run_calls L cs v = Inr v'"
    and "\<And>e u x. (e, u) \<in> set cs \<Longrightarrow> trace (u x) = trace x"
  shows "trace v' = trace v @ map fst cs"
  using assms
proof (induction cs arbitrary: v)
  case Nil
  then show ?case by simp
next
  case (Cons c cs)
  obtain e u where c: "c = (e, u)" by (cases c)
  from Cons.prems(1) c have quiet: "\<not> throws L e"
    and rest: "run_calls L cs (u (emit [e] v)) = Inr v'"
    by (auto split: if_splits)
  have "trace v' = trace (u (emit [e] v)) @ map fst cs"
    using rest Cons.prems(2) by (intro Cons.IH) auto
  moreover have "trace (u (emit [e] v)) = trace v @ [e]"
    using Cons.prems(2) [of e u] c by (simp add: emit_def)
  ultimately show ?case using c by simp
qed

lemma mount_calls_keep_trace:
  "(e, u) \<in> set (create_calls L pty @ restore_calls pty @ wire_calls) \<Longrightarrow> trace (u x) = trace x"
  by (auto simp: create_calls_def restore_calls_def wire_calls_def add_listener_def
      resized_def split: option.splits if_splits)

lemma onMount_Inr_trace:
  assumes "onMount L pty unmounted = Inr v"
  shows "trace v = map fst (create_calls L pty) @ map fst (restore_calls pty) @ map fst wire_calls"
proof -
  have "trace v = trace unmounted @ map fst (create_calls L pty @ restore_calls pty @ wire_calls)"
    using assms mount_calls_keep_trace unfolding onMount_def
    by (rule run_calls_Inr_trace)
  then show ?thesis by (simp add: unmounted_def)
qed

lemma restore_ops_create: "filter is_restore_op (map fst (create_calls L pty)) = []"
  by (simp add: create_calls_def)

lemma restore_ops_wire: "filter is_restore_op (map fst wire_calls) = []"
  by (simp add: wire_calls_def)

lemma restore_ops_restore: "filter is_restore_op (map fst (restore_calls pty)) = map fst (restore_calls pty)"
  by (simp add: restore_calls_def split: option.splits)

lemma restore_calls_sorted:
  "sorted_wrt (\<lambda>a b. restore_rank a < restore_rank b) (map fst (restore_calls pty))"
  by (simp add: restore_calls_def split: option.splits)


section \<open>Teardown captures before it closes\<close>




section \<open>The restore block\<close>

text \<open>
  C2, as amended. In a mount that completes, the surface calls of the restore block are
  always in the order resize, reset, write, scrollToLine, each at most once. For a
  session with a non-empty snapshot they are: \<open>resize(cols, rows)\<close> only when both
  \<open>rows\<close> and \<open>cols\<close> are present and not zero, then \<open>reset\<close>, then
  \<open>write(snapshot)\<close>, then \<open>scrollToLine(scrollY)\<close> only when \<open>scrollY\<close> is present
  and not zero. So no write precedes a resize and no scroll precedes the write.
\<close>

theorem restore_order:
  assumes "onMount L pty unmounted = Inr v"
  shows "sorted_wrt (\<lambda>a b. restore_rank a < restore_rank b) (filter is_restore_op (trace v))
     \<and> (\<forall>b. buffer pty = Some b \<and> b \<noteq> [] \<longrightarrow>
          filter is_restore_op (trace v) =
            (case (rows pty, cols pty) of
               (Some r, Some c) \<Rightarrow> if r \<noteq> 0 \<and> c \<noteq> 0 then [TermResize c r] else []
             | _ \<Rightarrow> [])
            @ [TermReset, TermWrite b]
            @ (case scrollY pty of
                 None \<Rightarrow> []
               | Some y \<Rightarrow> if y \<noteq> 0 then [TermScrollToLine y] else []))"
proof -
  have ops: "filter is_restore_op (trace v) = map fst (restore_calls pty)"
    by (simp add: onMount_Inr_trace [OF assms] restore_ops_create restore_ops_wire
        restore_ops_restore)
  show ?thesis
    unfolding ops
    by (auto simp: restore_calls_sorted) (simp add: restore_calls_def split: option.splits)
qed

theorem restore_order_witness:
  "onMount quiet sess_full unmounted = Inr attached_view
   \<and> filter is_restore_op (trace attached_view) =
       [TermResize 100 30, TermReset, TermWrite (js ''hello''), TermScrollToLine 5]"
  using restore_order [of quiet sess_full attached_view]
  by (simp add: attached_view_eq) (simp add: example_defs mount_defs js_def)

text \<open>
  C2 as stated fails for a session that has a snapshot and neither dimensions nor a
  scroll offset: the restore block calls \<open>reset\<close> and \<open>write\<close> only.
\<close>

theorem restore_without_resize_or_scroll:
  "buffer sess_snapshot_only = Some (js ''x'')
   \<and> filter is_restore_op (trace (after (onMount quiet sess_snapshot_only unmounted)))
       = [TermReset, TermWrite (js ''x'')]"
  by (simp add: example_defs mount_defs js_def)

lemma resize_in_restore:
  "TermResize c r \<in> set (map fst (restore_calls pty)) \<longleftrightarrow>
     (\<exists>b. buffer pty = Some b \<and> b \<noteq> [] \<and> rows pty = Some r \<and> cols pty = Some c
          \<and> r \<noteq> 0 \<and> c \<noteq> 0)"
  by (cases "buffer pty"; cases "rows pty"; cases "cols pty"; cases "scrollY pty")
    (auto simp: restore_calls_def)

lemma resize_not_elsewhere:
  "TermResize c r \<notin> set (map fst (create_calls L pty))"
  "TermResize c r \<notin> set (map fst wire_calls)"
  by (simp_all add: create_calls_def wire_calls_def)

text \<open>
  C4, as amended. In a mount that completes, \<open>term.resize(c, r)\<close> is called exactly when
  the session has a non-empty snapshot and its \<open>rows\<close> and \<open>cols\<close> are \<open>r\<close> and \<open>c\<close>,
  both present and not zero: the resize sits inside the \<open>if (local.pty.buffer)\<close> block.
\<close>

theorem resize_needs_snapshot:
  assumes "onMount L pty unmounted = Inr v"
  shows "TermResize c r \<in> set (trace v) \<longleftrightarrow>
         (\<exists>b. buffer pty = Some b \<and> b \<noteq> [] \<and> rows pty = Some r \<and> cols pty = Some c
              \<and> r \<noteq> 0 \<and> c \<noteq> 0)"
  using resize_in_restore [of c r pty] resize_not_elsewhere
  by (simp add: onMount_Inr_trace [OF assms])

theorem resize_needs_snapshot_witness:
  "onMount quiet sess_full unmounted = Inr attached_view
   \<and> TermResize 100 30 \<in> set (trace attached_view)
   \<and> buffer sess_full = Some (js ''hello'')"
  using resize_needs_snapshot [of quiet sess_full attached_view 100 30]
  by (simp add: attached_view_eq) (simp add: example_defs mount_defs js_def)

text \<open>
  C4 as stated fails for a session that has dimensions and no snapshot: the mount makes
  no resize call at all.
\<close>

theorem dimensions_without_snapshot_not_resized:
  "rows sess_dims_only = Some 24 \<and> cols sess_dims_only = Some 80
   \<and> TermResize 80 24 \<notin> set (trace (after (onMount quiet sess_dims_only unmounted)))
   \<and> \<not> list_ex is_resize (trace (after (onMount quiet sess_dims_only unmounted)))"
  by (simp add: example_defs mount_defs js_def)


section \<open>Input and the open handler\<close>

text \<open>
  C3. With the \<open>onData\<close> handler registered, the bytes of an \<open>onData\<close> event are sent
  on the socket when the socket is open, and only then. When it is not open the event
  changes nothing: no call is made, nothing is stored, no error is raised, and every
  later run of events, a later \<open>open\<close> included, goes exactly as if the event had never
  happened, so the dropped bytes are never sent afterwards.
\<close>

theorem input_sent_only_while_open:
  assumes "TermOnData \<in> set (listeners v)"
  shows "(is_open v \<longrightarrow> fire p pty (EvData d) v = emit [WsSend d] v)
       \<and> (\<not> is_open v \<longrightarrow> fire p pty (EvData d) v = v
                          \<and> run p pty (EvData d # evs) v = run p pty evs v)"
  using assms by (simp add: deliver_def onData_handler_def emit_def)

theorem input_sent_only_while_open_witness:
  "TermOnData \<in> set (listeners attached_view) \<and> \<not> is_open attached_view
   \<and> run host sess_full [EvData (js ''ls''), EvWsOpen, EvData (js ''pwd'')] attached_view
       = run host sess_full [EvWsOpen, EvData (js ''pwd'')] attached_view
   \<and> trace (run host sess_full [EvData (js ''ls''), EvWsOpen, EvData (js ''pwd'')] attached_view)
       = trace attached_view @
           [ConsoleLog ''WebSocket connected'', PtyUpdate (js ''pty1'') 100 30,
            WsSend (js ''pwd'')]"
proof -
  have reg: "TermOnData \<in> set (listeners attached_view)"
    by (simp add: attached_view_eq)
  have shut: "\<not> is_open attached_view"
    by (simp add: attached_view_eq is_open_def)
  have dropped:
    "run host sess_full (EvData (js ''ls'') # [EvWsOpen, EvData (js ''pwd'')]) attached_view
       = run host sess_full [EvWsOpen, EvData (js ''pwd'')] attached_view"
    using input_sent_only_while_open [OF reg, of host sess_full "js ''ls''"
        "[EvWsOpen, EvData (js ''pwd'')]"] shut
    by blast
  have later:
    "trace (run host sess_full [EvWsOpen, EvData (js ''pwd'')] attached_view)
       = trace attached_view @
           [ConsoleLog ''WebSocket connected'', PtyUpdate (js ''pty1'') 100 30,
            WsSend (js ''pwd'')]"
    by (simp add: attached_view_eq deliver_def set_ready_def open_handler_def
        onData_handler_def is_open_def emit_def sess_full_def)
  show ?thesis
    using reg shut dropped later by simp
qed

text \<open>
  C5. With the \<open>open\<close> listener registered and the surface in place, one \<open>open\<close> event
  makes exactly these calls: the log line, then one \<open>pty.update\<close> carrying the surface's
  current \<open>cols\<close> and \<open>rows\<close>. The size goes through the SDK, not the socket, and the
  handler sends no data at all, so nothing is sent before the report.
\<close>

theorem open_reports_size_once:
  assumes "WsOnOpen \<in> set (listeners v)" and "term' v = Some t"
  shows "reaction p pty EvWsOpen v =
           [ConsoleLog ''WebSocket connected'',
            PtyUpdate (pty_id pty) (term_cols t) (term_rows t)]"
  using assms
  by (simp add: reaction_def deliver_def set_ready_def open_handler_def emit_def)

theorem open_reports_size_once_witness:
  "WsOnOpen \<in> set (listeners busy_view)
   \<and> reaction host sess_full EvWsOpen busy_view =
       [ConsoleLog ''WebSocket connected'', PtyUpdate (js ''pty1'') 120 40]"
  using open_reports_size_once [of busy_view
      "\<lparr>term_cols = 120, term_rows = 40, viewportY = 7, serialized = js ''$ ls'',
        disposed = False\<rparr>" host sess_full]
  by (simp add: busy_view_eq attached_view_eq sess_full_def)


section \<open>Socket events after teardown\<close>

lemma reaction_deliver:
  "drop (length (trace v)) (trace (deliver l es v)) = (if l \<in> set (listeners v) then es else [])"
  by (simp add: deliver_def emit_def)








section \<open>A restore that throws\<close>

text \<open>
  C7, as amended. When \<open>term.write(snapshot)\<close> throws and no other call does, the mount
  has nothing that catches it: the body stops at the write, its promise is rejected with
  that exception, nothing is logged, and the steps after the restore block do not run.
  The only listener in place is the key hook; no \<open>onData\<close>, \<open>onResize\<close>, \<open>onKey\<close> or
  socket handler is registered.
\<close>

theorem failed_restore_rejects_mount:
  assumes "buffer pty = Some b" and "b \<noteq> []" and "throws L (TermWrite b)"
    and "\<And>e. throws L e \<Longrightarrow> e = TermWrite b"
  shows "\<exists>v. onMount L pty unmounted = Inl (Thrown (TermWrite b), v)
           \<and> listeners v = [KeyHook]
           \<and> trace v = map fst (create_calls L pty)
               @ (case (rows pty, cols pty) of
                    (Some r, Some c) \<Rightarrow> if r \<noteq> 0 \<and> c \<noteq> 0 then [TermResize c r] else []
                  | _ \<Rightarrow> [])
               @ [TermReset, TermWrite b]"
proof -
  have ok: "\<And>e. e \<noteq> TermWrite b \<Longrightarrow> \<not> throws L e"
    using assms(4) by blast
  show ?thesis
    using assms(1-3)
    by (cases "rows pty"; cases "cols pty")
      (simp_all add: mount_defs ok)
qed

theorem failed_restore_rejects_mount_witness:
  "throws faulty (TermWrite (js ''bad''))
   \<and> (\<exists>v. onMount faulty sess_bad unmounted = Inl (Thrown (TermWrite (js ''bad'')), v)
         \<and> listeners v = [KeyHook])"
proof -
  have snapshot: "buffer sess_bad = Some (js ''bad'')"
    by (simp add: sess_bad_def)
  have nonempty: "js ''bad'' \<noteq> []"
    by (simp add: js_def)
  have fails: "throws faulty (TermWrite (js ''bad''))"
    by (simp add: faulty_def)
  have only: "\<And>e. throws faulty e \<Longrightarrow> e = TermWrite (js ''bad'')"
    by (simp add: faulty_def)
  from failed_restore_rejects_mount [OF snapshot nonempty fails only]
  obtain v where "onMount faulty sess_bad unmounted = Inl (Thrown (TermWrite (js ''bad'')), v)"
    and "listeners v = [KeyHook]"
    by blast
  with fails show ?thesis by blast
qed

text \<open>
  C7 as stated fails: with a surface that rejects the snapshot \<open>bad\<close> the mount is
  rejected at the write, no report is made, and the view is not a working one: after
  the socket opens, typed input makes no call.
\<close>

theorem malformed_snapshot_breaks_attach:
  "isl (onMount faulty sess_bad unmounted)
   \<and> listeners (after (onMount faulty sess_bad unmounted)) = [KeyHook]
   \<and> trace (after (onMount faulty sess_bad unmounted)) =
       [NewWebSocket (js ''pty1''), NewTerm, AttachCustomKeyEventHandler, NewAddon FitAddon,
        NewAddon SerializeAddon, LoadAddon SerializeAddon, LoadAddon FitAddon, TermOpen,
        TermResize 80 24, TermReset, TermWrite (js ''bad'')]
   \<and> reaction host sess_bad (EvData (js ''ls''))
        (fire host sess_bad EvWsOpen (after (onMount faulty sess_bad unmounted))) = []"
  by (simp add: example_defs mount_defs js_def reaction_def deliver_def set_ready_def)


section \<open>Teardown and missing resources\<close>

lemma run_calls_keeps_term:
  assumes "term' v \<noteq> None"
    and "\<And>e u x. (e, u) \<in> set cs \<Longrightarrow> term' x \<noteq> None \<Longrightarrow> term' (u x) \<noteq> None"
  shows "term' (after (run_calls L cs v)) \<noteq> None"
  using assms
proof (induction cs arbitrary: v)
  case Nil
  then show ?case by (simp add: after_def)
next
  case (Cons c cs)
  obtain e u where c: "c = (e, u)" by (cases c)
  show ?case
  proof (cases "throws L e")
    case True
    then show ?thesis using Cons.prems(1) c by (simp add: after_def emit_def)
  next
    case False
    have "term' (emit [e] v) \<noteq> None"
      using Cons.prems(1) by (simp add: emit_def)
    then have "term' (u (emit [e] v)) \<noteq> None"
      using Cons.prems(2) [of e u] c by simp
    then have "term' (after (run_calls L cs (u (emit [e] v)))) \<noteq> None"
    proof (rule Cons.IH)
      fix e' :: effect and u' :: "view \<Rightarrow> view" and x :: view
      assume "(e', u') \<in> set cs" and "term' x \<noteq> None"
      then show "term' (u' x) \<noteq> None"
        using Cons.prems(2) [of e' u' x] by simp
    qed
    then show ?thesis using False c by simp
  qed
qed

lemma later_calls_keep_term:
  assumes "(e, u) \<in> set (drop 2 (create_calls L pty) @ restore_calls pty @ wire_calls)"
    and "term' x \<noteq> None"
  shows "term' (u x) \<noteq> None"
  using assms
  by (auto simp: create_calls_def restore_calls_def wire_calls_def add_listener_def
      resized_def split: option.splits if_splits)

lemma onMount_plumbed:
  "serializeAddon (after (onMount L pty unmounted)) \<longrightarrow>
   term' (after (onMount L pty unmounted)) \<noteq> None"
proof (cases "throws L (NewWebSocket (pty_id pty)) \<or> throws L NewTerm")
  case True
  then show ?thesis
    by (auto simp: mount_defs)
next
  case False
  define v2 where "v2 = unmounted\<lparr>trace := [NewWebSocket (pty_id pty), NewTerm],
      ws := Some \<lparr>readyState = CONNECTING\<rparr>, term' := Some (new_Term L)\<rparr>"
  have split: "create_calls L pty = take 2 (create_calls L pty) @ drop 2 (create_calls L pty)"
    by simp
  have "onMount L pty unmounted =
        run_calls L (drop 2 (create_calls L pty) @ restore_calls pty @ wire_calls) v2"
    using False
    by (simp add: onMount_def create_calls_def v2_def emit_def unmounted_def)
  moreover have "term' v2 \<noteq> None"
    by (simp add: v2_def)
  ultimately show ?thesis
    using run_calls_keeps_term [of v2 _ L] later_calls_keep_term by metis
qed

lemma fire_keeps_variables:
  "(term' (fire p pty ev v) = None) = (term' v = None)"
  "serializeAddon (fire p pty ev v) = serializeAddon v"
  "(ws (fire p pty ev v) = None) = (ws v = None)"
  by (cases ev; simp add: deliver_def emit_def set_ready_def resized_def Let_def)+

lemma run_keeps_variables:
  "(term' (run p pty evs v) = None) = (term' v = None)
   \<and> serializeAddon (run p pty evs v) = serializeAddon v
   \<and> (ws (run p pty evs v) = None) = (ws v = None)"
  by (induction evs arbitrary: v) (simp_all add: fire_keeps_variables)

lemma onCleanup_total:
  assumes "serializeAddon v \<longrightarrow> term' v \<noteq> None"
  shows "\<exists>v'. onCleanup p pty v = Inr v'
     \<and> (\<not> (serializeAddon v \<and> has_onCleanup p) \<longrightarrow>
          trace v' = trace v @ (if ws v = None then [] else [WsCloseCall])
                             @ (if term' v = None then [] else [TermDispose]))
     \<and> (serializeAddon v \<and> has_onCleanup p \<longrightarrow>
          (\<exists>pty'. trace v' = trace v @ [Serialize, OnCleanup pty']
                             @ (if ws v = None then [] else [WsCloseCall]) @ [TermDispose]))
     \<and> (WsCloseCall \<in> set (drop (length (trace v)) (trace v')) \<longleftrightarrow> ws v \<noteq> None)
     \<and> (TermDispose \<in> set (drop (length (trace v)) (trace v')) \<longleftrightarrow> term' v \<noteq> None)"
  using assms
  by (cases "ws v"; cases "term' v")
    (auto simp: onCleanup_def capture_def close_ws_def dispose_def emit_def)

lemma onCleanup_lib_returns:
  assumes "\<not> throws L Serialize" and "\<forall>q. \<not> throws L (OnCleanup q)"
    and "\<not> throws L WsCloseCall" and "\<not> throws L TermDispose"
  shows "onCleanup_lib L p pty v = onCleanup p pty v"
  using assms
  by (simp add: onCleanup_lib_def capture_lib_def close_lib_def dispose_lib_def onCleanup_def
      capture_def close_ws_def dispose_def emit_def Let_def split: option.splits)

lemma onCleanup_lib_no_TypeError:
  assumes "serializeAddon v \<longrightarrow> term' v \<noteq> None"
  shows "onCleanup_lib L p pty v \<noteq> Inl (TypeError, x)"
  using assms
  by (auto simp: onCleanup_lib_def capture_lib_def close_lib_def dispose_lib_def Let_def
      split: option.splits sum.splits if_splits)

text \<open>
  C9, as amended. Teardown raises no error of its own: in every state the component can
  be in (before the mount ran, after a mount that stopped at any throwing call, after a
  finished mount followed by any events) it never reads a missing resource. When its
  library calls return, it returns: with no host callback, or with the \<open>serializeAddon\<close>
  variable never assigned, it makes no capture call; otherwise it captures; and it calls
  \<open>ws.close\<close> exactly when the socket was created and \<open>term.dispose\<close> exactly when
  the surface was created.
\<close>

theorem teardown_no_error_of_its_own:
  assumes "v = unmounted \<or> v = run p pty evs (after (onMount L pty0 unmounted))"
  shows "(\<forall>x. onCleanup_lib L p pty v \<noteq> Inl (TypeError, x))
     \<and> (\<not> throws L Serialize \<and> (\<forall>q. \<not> throws L (OnCleanup q))
          \<and> \<not> throws L WsCloseCall \<and> \<not> throws L TermDispose \<longrightarrow>
        (\<exists>v'. onCleanup_lib L p pty v = Inr v'
           \<and> (\<not> (serializeAddon v \<and> has_onCleanup p) \<longrightarrow>
                trace v' = trace v @ (if ws v = None then [] else [WsCloseCall])
                                   @ (if term' v = None then [] else [TermDispose]))
           \<and> (serializeAddon v \<and> has_onCleanup p \<longrightarrow>
                (\<exists>pty'. trace v' = trace v @ [Serialize, OnCleanup pty']
                                   @ (if ws v = None then [] else [WsCloseCall]) @ [TermDispose]))
           \<and> (WsCloseCall \<in> set (drop (length (trace v)) (trace v')) \<longleftrightarrow> ws v \<noteq> None)
           \<and> (TermDispose \<in> set (drop (length (trace v)) (trace v')) \<longleftrightarrow> term' v \<noteq> None)))"
proof -
  have plumbed: "serializeAddon v \<longrightarrow> term' v \<noteq> None"
    using assms onMount_plumbed [of L pty0]
      run_keeps_variables [of p pty evs "after (onMount L pty0 unmounted)"]
    by (auto simp: unmounted_def)
  have own: "\<forall>x. onCleanup_lib L p pty v \<noteq> Inl (TypeError, x)"
    using onCleanup_lib_no_TypeError [OF plumbed] by blast
  show ?thesis
  proof (intro conjI impI)
    show "\<forall>x. onCleanup_lib L p pty v \<noteq> Inl (TypeError, x)" by (rule own)
  next
    assume returns: "\<not> throws L Serialize \<and> (\<forall>q. \<not> throws L (OnCleanup q))
          \<and> \<not> throws L WsCloseCall \<and> \<not> throws L TermDispose"
    then have "onCleanup_lib L p pty v = onCleanup p pty v"
      by (intro onCleanup_lib_returns) simp_all
    then show "\<exists>v'. onCleanup_lib L p pty v = Inr v'
           \<and> (\<not> (serializeAddon v \<and> has_onCleanup p) \<longrightarrow>
                trace v' = trace v @ (if ws v = None then [] else [WsCloseCall])
                                   @ (if term' v = None then [] else [TermDispose]))
           \<and> (serializeAddon v \<and> has_onCleanup p \<longrightarrow>
                (\<exists>pty'. trace v' = trace v @ [Serialize, OnCleanup pty']
                                   @ (if ws v = None then [] else [WsCloseCall]) @ [TermDispose]))
           \<and> (WsCloseCall \<in> set (drop (length (trace v)) (trace v')) \<longleftrightarrow> ws v \<noteq> None)
           \<and> (TermDispose \<in> set (drop (length (trace v)) (trace v')) \<longleftrightarrow> term' v \<noteq> None)"
      using onCleanup_total [OF plumbed, of p pty] by simp
  qed
qed

theorem teardown_no_error_of_its_own_witness:
  "(\<forall>x. onCleanup_lib no_surface host sess_full unmounted \<noteq> Inl (TypeError, x))
   \<and> (\<exists>v'. onCleanup_lib no_surface host sess_full unmounted = Inr v' \<and> trace v' = [])
   \<and> (\<exists>v'. onCleanup_lib no_surface host sess_full
              (after (onMount no_surface sess_full unmounted)) = Inr v'
         \<and> trace v' = [NewWebSocket (js ''pty1''), NewTerm, WsCloseCall])"
proof -
  have early: "after (onMount no_surface sess_full unmounted) =
      unmounted\<lparr>ws := Some \<lparr>readyState = CONNECTING\<rparr>,
                trace := [NewWebSocket (js ''pty1''), NewTerm]\<rparr>"
    by (simp add: no_surface_def sess_full_def mount_defs)
  have returns: "\<not> throws no_surface Serialize \<and> (\<forall>q. \<not> throws no_surface (OnCleanup q))
      \<and> \<not> throws no_surface WsCloseCall \<and> \<not> throws no_surface TermDispose"
    by (simp add: no_surface_def)
  have first: "(\<forall>x. onCleanup_lib no_surface host sess_full unmounted \<noteq> Inl (TypeError, x))
      \<and> (\<exists>v'. onCleanup_lib no_surface host sess_full unmounted = Inr v' \<and> trace v' = [])"
    using teardown_no_error_of_its_own [of unmounted host sess_full "[]" no_surface sess_full]
      returns
    by (auto simp: unmounted_def)
  have second: "\<exists>v'. onCleanup_lib no_surface host sess_full
        (after (onMount no_surface sess_full unmounted)) = Inr v'
         \<and> trace v' = [NewWebSocket (js ''pty1''), NewTerm, WsCloseCall]"
    using teardown_no_error_of_its_own [of "after (onMount no_surface sess_full unmounted)" host
        sess_full "[]" no_surface sess_full] returns
    unfolding early by (auto simp: unmounted_def)
  from first second show ?thesis by blast
qed

text \<open>
  C9 as stated fails. The guard tests the variable, not the loading: when
  \<open>term.loadAddon(serializeAddon)\<close> throws, the serializer was constructed and never
  loaded into the surface, and the teardown still captures and hands the host an empty
  snapshot.
\<close>

theorem unloaded_serializer_still_captures:
  "isl (onMount unloadable sess_full unmounted)
   \<and> LoadAddon SerializeAddon = last (trace (after (onMount unloadable sess_full unmounted)))
   \<and> throws unloadable (LoadAddon SerializeAddon)
   \<and> onCleanup_lib unloadable host sess_full (after (onMount unloadable sess_full unmounted))
       = Inr ((after (onMount unloadable sess_full unmounted))
           \<lparr>ws := Some \<lparr>readyState = CLOSING\<rparr>,
            term' := Some \<lparr>term_cols = 80, term_rows = 24, viewportY = 0, serialized = [],
                           disposed = True\<rparr>,
            trace := [NewWebSocket (js ''pty1''), NewTerm, AttachCustomKeyEventHandler,
                      NewAddon FitAddon, NewAddon SerializeAddon, LoadAddon SerializeAddon,
                      Serialize,
                      OnCleanup (sess_full\<lparr>buffer := Some [], rows := Some 24,
                                           cols := Some 80, scrollY := Some 0\<rparr>),
                      WsCloseCall, TermDispose]\<rparr>)"
  by (simp add: unloadable_def host_def sess_full_def mount_defs onCleanup_lib_def
      capture_lib_def close_lib_def dispose_lib_def close_ws_def dispose_def js_def)

text \<open>
  Nor does the body catch anything: a throw from \<open>serialize\<close> leaves it before the
  socket is closed and the surface disposed.
\<close>

lemma capture_throw_skips_close_and_dispose:
  "onCleanup_lib unserializable host sess_full attached_view
     = Inl (Thrown Serialize, attached_view\<lparr>trace := trace attached_view @ [Serialize]\<rparr>)"
  by (simp add: attached_view_eq unserializable_def host_def onCleanup_lib_def capture_lib_def
      emit_def)


section \<open>The key hook\<close>

lemma lower_unit_backtick: "lower_unit u = 0x60 \<longleftrightarrow> u = 0x60"
  unfolding lower_unit_def
  by (auto simp: word_le_nat_alt unat_word_ariths)

lemma js_backtick: "js ''`'' = [0x60]"
  by (simp add: js_def)

lemma toLowerCase_backtick: "toLowerCase k = js ''`'' \<longleftrightarrow> k = js ''`''"
  by (cases k) (auto simp: toLowerCase_def js_backtick lower_unit_backtick)

text \<open>
  C8. The key hook returns \<open>true\<close> (after \<open>preventDefault\<close>) for the key events that have
  the Ctrl modifier and whose key, lower-cased, is the backtick, and \<open>false\<close> with no
  call for every other event. The backtick has no other case form, so these are the
  events with Ctrl and the key \<open>`\<close> itself.
\<close>

theorem key_hook_ctrl_backtick:
  "fst (customKeyEventHandler event) = (ctrlKey event \<and> toLowerCase (key event) = js ''`'')
   \<and> customKeyEventHandler event =
       (if ctrlKey event \<and> key event = js ''`'' then (True, [PreventDefault])
        else (False, []))"
  by (simp add: customKeyEventHandler_def toLowerCase_backtick)


section \<open>Shell history\<close>

text \<open>
  What \<open>addToHistory\<close> does in general: a blank command changes nothing; otherwise the
  trimmed command is put in front of the history with its first earlier occurrence
  removed, and the list is cut to 1000 entries. The trimmed command is then at index 0,
  no entry is empty, and the command occurs once provided it occurred at most once before.
\<close>

lemma indexOf_member: "x \<in> set xs \<Longrightarrow> 0 \<le> indexOf xs x"
  by (induction xs) (auto simp: Let_def)

lemma indexOf_absent: "x \<notin> set xs \<Longrightarrow> indexOf xs x = -1"
  by (induction xs) (auto simp: Let_def)

lemma indexOf_found_iff: "indexOf xs x \<noteq> -1 \<longleftrightarrow> x \<in> set xs"
  using indexOf_member [of x xs] indexOf_absent [of x xs] by auto

lemma splice1_indexOf: "x \<in> set xs \<Longrightarrow> splice1 (indexOf xs x) xs = remove1 x xs"
proof (induction xs)
  case Nil
  then show ?case by simp
next
  case (Cons y ys)
  show ?case
  proof (cases "y = x")
    case True
    then show ?thesis by (simp add: splice1_def)
  next
    case False
    with Cons.prems have mem: "x \<in> set ys" by simp
    then have pos: "0 \<le> indexOf ys x" by (rule indexOf_member)
    from mem have found: "indexOf ys x \<noteq> -1" by (simp add: indexOf_found_iff)
    have "splice1 (indexOf ys x + 1) (y # ys) = y # splice1 (indexOf ys x) ys"
      using pos by (simp add: splice1_def nat_add_distrib)
    then show ?thesis
      using False found Cons.IH [OF mem] by (simp add: Let_def)
  qed
qed

lemma history_of_cached: "history_of (s\<lparr>historyCache := Some h\<rparr>) = h"
  by (simp add: history_of_def loadHistory_def)

lemma history_of_addToHistory:
  assumes "trim command \<noteq> []"
  shows "history_of (addToHistory command s) =
           take MAX_HISTORY (trim command # remove1 (trim command) (history_of s))"
proof -
  obtain h s1 where load: "loadHistory s = (h, s1)" by (cases "loadHistory s")
  then have h: "history_of s = h" by (simp add: history_of_def)
  have removed: "(if indexOf h (trim command) \<noteq> -1 then splice1 (indexOf h (trim command)) h else h)
                   = remove1 (trim command) h"
    by (simp add: indexOf_found_iff splice1_indexOf remove1_idem)
  show ?thesis
    using assms load removed
    by (simp add: addToHistory_def Let_def h history_of_def loadHistory_def)
qed

lemma loaded_entries_nonempty: "historyCache s = None \<Longrightarrow> [] \<notin> set (history_of s)"
  by (auto simp: history_of_def loadHistory_def Let_def split: file_status.splits)

lemma count_list_take_le: "count_list (take n xs) x \<le> count_list xs x"
proof (induction xs arbitrary: n)
  case Nil
  then show ?case by simp
next
  case (Cons y ys)
  then show ?case by (cases n) (auto intro: le_SucI)
qed

lemma count_list_remove1: "count_list (remove1 x xs) x = count_list xs x - 1"
  by (induction xs) auto

lemma addToHistory_sound:
  assumes "trim command \<noteq> []" and "[] \<notin> set (history_of s)"
  shows "history_of (addToHistory command s) ! 0 = trim command"
    and "[] \<notin> set (history_of (addToHistory command s))"
    and "length (history_of (addToHistory command s)) \<le> 1000"
    and "count_list (history_of s) (trim command) \<le> 1 \<Longrightarrow>
         count_list (history_of (addToHistory command s)) (trim command) = 1"
proof -
  let ?t = "trim command"
  let ?h = "history_of s"
  have eq: "history_of (addToHistory command s) = ?t # take 999 (remove1 ?t ?h)"
    using history_of_addToHistory [OF assms(1), of s] by (simp add: MAX_HISTORY_def)
  show "history_of (addToHistory command s) ! 0 = ?t"
    by (simp add: eq)
  have "set (take 999 (remove1 ?t ?h)) \<subseteq> set ?h"
    using set_take_subset [of 999 "remove1 ?t ?h"] set_remove1_subset [of ?t ?h] by blast
  then show "[] \<notin> set (history_of (addToHistory command s))"
    using assms by (auto simp: eq)
  show "length (history_of (addToHistory command s)) \<le> 1000"
    by (simp add: eq)
  assume once: "count_list ?h ?t \<le> 1"
  have "count_list (take 999 (remove1 ?t ?h)) ?t \<le> count_list (remove1 ?t ?h) ?t"
    by (rule count_list_take_le)
  also have "\<dots> = 0"
    using once by (simp add: count_list_remove1)
  finally show "count_list (history_of (addToHistory command s)) ?t = 1"
    by (simp add: eq)
qed

lemma addToHistory_blank: "trim command = [] \<Longrightarrow> addToHistory command s = s"
  by (simp add: addToHistory_def)

text \<open>
  C10. A command holding a line break is stored as one entry and written to the file as
  two lines. After \<open>b\<close>, then \<open>a\<close> line break \<open>b\<close>, the file reads \<open>a\<close>, \<open>b\<close>, \<open>b\<close>;
  a new process loads three entries, and adding \<open>b\<close> again removes only the first of
  the two: the history is \<open>b\<close>, \<open>a\<close>, \<open>b\<close>, with the added command in it twice
  instead of once.
\<close>

theorem addToHistory_leaves_duplicate:
  "history_of (addToHistory (js ''b'')
     (restart (addToHistory (js ''a\<newline>b'') (addToHistory (js ''b'') fresh_shell))))
   = [js ''b'', js ''a'', js ''b'']
   \<and> count_list (history_of (addToHistory (js ''b'')
        (restart (addToHistory (js ''a\<newline>b'') (addToHistory (js ''b'') fresh_shell)))))
        (js ''b'') = 2"
  by (simp add: history_of_def addToHistory_def loadHistory_def restart_def fresh_shell_def
      js_def trim_def is_ws_def splice1_def MAX_HISTORY_def Let_def)

end
